theory Spec2Isabelle
  imports Complex_Main "HOL-Library.AList"
begin

section \<open>Python values used by \<^verbatim>\<open>app.py\<close>\<close>

text \<open>
  Numbers.  The calculator multiplies and adds Python numbers (\<^verbatim>\<open>int\<close> and
  \<^verbatim>\<open>float\<close>).  They are modelled by the type \<^typ>\<open>real\<close>, the type the
  specification gives to every quantity (``non-negative real'', ``real, kg CO2e''):
  arithmetic is exact, the rounding of binary floating point is outside the model.
  The order of the additions and multiplications is kept as in the source.

  A Python \<^verbatim>\<open>int\<close> is unbounded and a \<^verbatim>\<open>float\<close> is not.  Every coefficient of
  the table is a \<^verbatim>\<open>float\<close>, so a product \<^verbatim>\<open>n * f\<close> with an \<^verbatim>\<open>int\<close> on the left
  converts \<open>n\<close> first, and the conversion raises \<^verbatim>\<open>OverflowError\<close> (``int too large
  to convert to float'') when the magnitude of \<open>n\<close> reaches \<open>2^1024 - 2^970\<close>, the
  first value that rounds beyond the largest \<^verbatim>\<open>float\<close>.  The calculator is therefore
  given twice: \<open>calculate_footprint\<close> on numbers that are floats already, and
  \<open>calculate_footprint_py\<close> on arguments that are \<^verbatim>\<open>int\<close> or \<^verbatim>\<open>float\<close>, with the
  conversion at each of the three products.  The two agree on every argument that
  converts.

  Dictionaries.  A Python \<^verbatim>\<open>dict\<close> keeps its keys in insertion order, so it is an
  association list: \<^verbatim>\<open>d[k] = v\<close> is \<^const>\<open>AList.update\<close> (a new key goes to the
  end, an old key keeps its place), and reading \<^verbatim>\<open>d[k]\<close> raises
  \<^verbatim>\<open>KeyError\<close> for a key that is absent.
\<close>

datatype py_error = KeyError string | OverflowError

datatype py_number = PyInt int | PyFloat real

text \<open>The conversion that \<^verbatim>\<open>int * float\<close> applies to its left operand.\<close>

fun py_float :: "py_number \<Rightarrow> py_error + real" where
  "py_float (PyFloat x) = Inr x"
| "py_float (PyInt n) =
     (if \<bar>n\<bar> < 2 ^ 1024 - 2 ^ 970 then Inr (of_int n) else Inl OverflowError)"

definition getitem :: "(string \<times> 'v) list \<Rightarrow> string \<Rightarrow> py_error + 'v" where
  "getitem d k = (case map_of d k of None \<Rightarrow> Inl (KeyError k) | Some v \<Rightarrow> Inr v)"

text \<open>Sequencing of two computations that may raise: the first error ends the run.\<close>

definition then_do :: "py_error + 'a \<Rightarrow> ('a \<Rightarrow> py_error + 'b) \<Rightarrow> py_error + 'b" where
  "then_do r f = (case r of Inl e \<Rightarrow> Inl e | Inr v \<Rightarrow> f v)"

section \<open>Emission factors (lines 45--65)\<close>

definition EMISSION_FACTORS :: "(string \<times> (string \<times> real) list) list" where
  "EMISSION_FACTORS =
    [(''transportation'',
        [(''gasoline_car_km'', 0.21),
         (''electric_car_km'', 0.05),
         (''public_transport_km'', 0.04),
         (''flight_km'', 0.15)]),
     (''electricity'',
        [(''kwh'', 0.23)]),
     (''diet'',
        [(''high_meat'', 2.5),
         (''medium_meat'', 1.5),
         (''low_meat'', 0.8),
         (''vegetarian'', 0.5),
         (''vegan'', 0.3)]),
     (''waste'',
        [(''kg_waste'', 0.2)])]"

text \<open>The product \<^verbatim>\<open>x * f\<close> of an argument \<open>x\<close> and a \<^verbatim>\<open>float\<close> \<open>f\<close>.\<close>

definition mul_float :: "py_number \<Rightarrow> real \<Rightarrow> py_error + real" where
  "mul_float x f = then_do (py_float x) (\<lambda>v. Inr (v * f))"

text \<open>The double subscript \<^verbatim>\<open>EMISSION_FACTORS[category][key]\<close>.\<close>

definition factor :: "string \<Rightarrow> string \<Rightarrow> py_error + real" where
  "factor category key = then_do (getitem EMISSION_FACTORS category) (\<lambda>d. getitem d key)"

section \<open>The calculator (lines 74--117)\<close>

definition calculate_footprint ::
  "real \<Rightarrow> string \<Rightarrow> real \<Rightarrow> string \<Rightarrow> real \<Rightarrow> py_error + (real \<times> (string \<times> real) list)" where
  "calculate_footprint transport_km transport_type electricity_kwh diet_choice waste_kg =
    (let total_co2e = 0;
         breakdown = []
     in
     then_do
       (if transport_type = ''Gasoline Car'' then
          then_do (factor ''transportation'' ''gasoline_car_km'') (\<lambda>f. Inr (transport_km * f))
        else if transport_type = ''Electric Car'' then
          then_do (factor ''transportation'' ''electric_car_km'') (\<lambda>f. Inr (transport_km * f))
        else if transport_type = ''Public Transport'' then
          then_do (factor ''transportation'' ''public_transport_km'') (\<lambda>f. Inr (transport_km * f))
        else if transport_type = ''Flight'' then
          then_do (factor ''transportation'' ''flight_km'') (\<lambda>f. Inr (transport_km * f))
        else Inr 0)
       (\<lambda>transport_co2e.
     let total_co2e = total_co2e + transport_co2e;
         breakdown = AList.update ''Transportation'' transport_co2e breakdown
     in
     then_do (factor ''electricity'' ''kwh'') (\<lambda>f.
     let electricity_co2e = electricity_kwh * f;
         total_co2e = total_co2e + electricity_co2e;
         breakdown = AList.update ''Electricity'' electricity_co2e breakdown
     in
     then_do
       (if diet_choice = ''High Meat (Daily)'' then
          then_do (factor ''diet'' ''high_meat'') (\<lambda>f. Inr (f * 30))
        else if diet_choice = ''Medium Meat (Few times/week)'' then
          then_do (factor ''diet'' ''medium_meat'') (\<lambda>f. Inr (f * 30))
        else if diet_choice = ''Low Meat (Once/week)'' then
          then_do (factor ''diet'' ''low_meat'') (\<lambda>f. Inr (f * 30))
        else if diet_choice = ''Vegetarian'' then
          then_do (factor ''diet'' ''vegetarian'') (\<lambda>f. Inr (f * 30))
        else if diet_choice = ''Vegan'' then
          then_do (factor ''diet'' ''vegan'') (\<lambda>f. Inr (f * 30))
        else Inr 0)
       (\<lambda>diet_co2e.
     let total_co2e = total_co2e + diet_co2e;
         breakdown = AList.update ''Diet'' diet_co2e breakdown
     in
     then_do (factor ''waste'' ''kg_waste'') (\<lambda>f.
     let waste_co2e = waste_kg * f;
         total_co2e = total_co2e + waste_co2e;
         breakdown = AList.update ''Waste'' waste_co2e breakdown
     in Inr (total_co2e, breakdown))))))"

section \<open>The calculator on \<^verbatim>\<open>int\<close> and \<^verbatim>\<open>float\<close> arguments (lines 74--117)\<close>

text \<open>
  The same lines once more, for numeric arguments that are \<^verbatim>\<open>int\<close> or
  \<^verbatim>\<open>float\<close>: the products of lines 82--88, 93 and 113 convert their left operand.
  A distance is converted only when the transport label selects a branch.
\<close>

definition calculate_footprint_py ::
  "py_number \<Rightarrow> string \<Rightarrow> py_number \<Rightarrow> string \<Rightarrow> py_number
     \<Rightarrow> py_error + (real \<times> (string \<times> real) list)" where
  "calculate_footprint_py transport_km transport_type electricity_kwh diet_choice waste_kg =
    (let total_co2e = 0;
         breakdown = []
     in
     then_do
       (if transport_type = ''Gasoline Car'' then
          then_do (factor ''transportation'' ''gasoline_car_km'') (\<lambda>f. mul_float transport_km f)
        else if transport_type = ''Electric Car'' then
          then_do (factor ''transportation'' ''electric_car_km'') (\<lambda>f. mul_float transport_km f)
        else if transport_type = ''Public Transport'' then
          then_do (factor ''transportation'' ''public_transport_km'') (\<lambda>f. mul_float transport_km f)
        else if transport_type = ''Flight'' then
          then_do (factor ''transportation'' ''flight_km'') (\<lambda>f. mul_float transport_km f)
        else Inr 0)
       (\<lambda>transport_co2e.
     let total_co2e = total_co2e + transport_co2e;
         breakdown = AList.update ''Transportation'' transport_co2e breakdown
     in
     then_do (factor ''electricity'' ''kwh'') (\<lambda>f.
     then_do (mul_float electricity_kwh f) (\<lambda>electricity_co2e.
     let total_co2e = total_co2e + electricity_co2e;
         breakdown = AList.update ''Electricity'' electricity_co2e breakdown
     in
     then_do
       (if diet_choice = ''High Meat (Daily)'' then
          then_do (factor ''diet'' ''high_meat'') (\<lambda>f. Inr (f * 30))
        else if diet_choice = ''Medium Meat (Few times/week)'' then
          then_do (factor ''diet'' ''medium_meat'') (\<lambda>f. Inr (f * 30))
        else if diet_choice = ''Low Meat (Once/week)'' then
          then_do (factor ''diet'' ''low_meat'') (\<lambda>f. Inr (f * 30))
        else if diet_choice = ''Vegetarian'' then
          then_do (factor ''diet'' ''vegetarian'') (\<lambda>f. Inr (f * 30))
        else if diet_choice = ''Vegan'' then
          then_do (factor ''diet'' ''vegan'') (\<lambda>f. Inr (f * 30))
        else Inr 0)
       (\<lambda>diet_co2e.
     let total_co2e = total_co2e + diet_co2e;
         breakdown = AList.update ''Diet'' diet_co2e breakdown
     in
     then_do (factor ''waste'' ''kg_waste'') (\<lambda>f.
     then_do (mul_float waste_kg f) (\<lambda>waste_co2e.
     let total_co2e = total_co2e + waste_co2e;
         breakdown = AList.update ''Waste'' waste_co2e breakdown
     in Inr (total_co2e, breakdown))))))))"

section \<open>Session state and the calculate button (lines 68--71, 150--161)\<close>

text \<open>
  The dictionary stored in \<^verbatim>\<open>st.session_state.current_footprint\<close> has the three
  fixed keys \<^verbatim>\<open>"date"\<close>, \<^verbatim>\<open>"total"\<close> and \<^verbatim>\<open>"breakdown"\<close>; it is a record.
  The session state holds the history list and the current footprint (\<^verbatim>\<open>None\<close> until
  the first calculation).
\<close>

record footprint =
  date_fp :: string
  total_fp :: real
  breakdown_fp :: "(string \<times> real) list"

record session_state =
  footprint_history :: "footprint list"
  current_footprint :: "footprint option"

text \<open>Lines 68--71 on a new session, and the reset of lines 247--248.\<close>

definition new_session :: session_state where
  "new_session = \<lparr>footprint_history = [], current_footprint = None\<rparr>"

definition reset_data :: "session_state \<Rightarrow> session_state" where
  "reset_data s = s\<lparr>footprint_history := [], current_footprint := None\<rparr>"

text \<open>Line 160, \<^verbatim>\<open>st.session_state.footprint_history.append(r)\<close>.\<close>

definition history_append :: "footprint \<Rightarrow> session_state \<Rightarrow> session_state" where
  "history_append r s = s\<lparr>footprint_history := footprint_history s @ [r]\<rparr>"

text \<open>
  The body of the button's \<^verbatim>\<open>if\<close> (lines 151--160).  \<open>today\<close> stands for
  \<^verbatim>\<open>datetime.date.today().strftime("%Y-%m-%d")\<close>, read from the clock.
\<close>

definition calculate_button ::
  "string \<Rightarrow> real \<Rightarrow> string \<Rightarrow> real \<Rightarrow> string \<Rightarrow> real \<Rightarrow> session_state
     \<Rightarrow> py_error + session_state" where
  "calculate_button today transport_km transport_type electricity_kwh diet_choice waste_kg s =
    then_do
      (calculate_footprint transport_km transport_type electricity_kwh diet_choice waste_kg)
      (\<lambda>(total_footprint, breakdown).
        let cur = \<lparr>date_fp = today, total_fp = total_footprint, breakdown_fp = breakdown\<rparr>;
            s = s\<lparr>current_footprint := Some cur\<rparr>
        in Inr (history_append cur s))"

section \<open>Personalized tips (lines 190--205)\<close>

text \<open>
  What the section does to the outside world, in order: a request sent to the text
  service by \<^verbatim>\<open>get_gemini_response\<close>, text shown with \<^verbatim>\<open>st.markdown\<close>, or a
  notice shown with \<^verbatim>\<open>st.info\<close>.
\<close>

datatype ui_call = GeminiRequest string | Markdown string | Info string

text \<open>\<^verbatim>\<open>", ".join(xs)\<close>\<close>

fun join :: "string \<Rightarrow> string list \<Rightarrow> string" where
  "join sep [] = []"
| "join sep [x] = x"
| "join sep (x # y # ys) = x @ sep @ join sep (y # ys)"

text \<open>
  \<^verbatim>\<open>sorted(d.items(), key=lambda item: item[1], reverse=True)\<close>: a stable sort by
  descending value, that is a stable ascending sort by the negated value.
\<close>

definition sorted_by_value_desc :: "(string \<times> real) list \<Rightarrow> (string \<times> real) list" where
  "sorted_by_value_desc items = sort_key (\<lambda>item. - snd item) items"

text \<open>
  Lines 194--205.  A call of \<^verbatim>\<open>get_gemini_response\<close> is the event
  \<^const>\<open>GeminiRequest\<close> with its prompt; what the function does inside (the HTTP
  post, the error messages) stays behind that event.  The spinner around the call shows
  no result and is left out.
  \<open>fmt2\<close> stands for the format \<^verbatim>\<open>{:.2f}\<close>, and \<open>gemini\<close> for the text that
  \<^verbatim>\<open>get_gemini_response\<close> returns for a prompt (the reply of the service, or one of
  its error strings).
\<close>

definition personalized_tips ::
  "(real \<Rightarrow> string) \<Rightarrow> (string \<Rightarrow> string) \<Rightarrow> footprint \<Rightarrow> ui_call list" where
  "personalized_tips fmt2 gemini cur =
    (let current_total_footprint = total_fp cur;
         current_breakdown = breakdown_fp cur;
         sorted_breakdown = sorted_by_value_desc current_breakdown;
         top_categories = join '', '' [cat. (cat, co2) \<leftarrow> sorted_breakdown, co2 > 0]
     in
     if top_categories \<noteq> [] then
       let gemini_prompt =
             ''The user's monthly carbon footprint is '' @ fmt2 current_total_footprint @
             '' kg CO2e. The main contributing categories are: '' @ top_categories @
             ''. Please provide 3-5 actionable and practical tips for reducing carbon emissions in these specific areas, suitable for an individual. Focus on easy-to-implement changes and provide a brief explanation for each tip. Format as a bulleted list.'';
           ai_tips = gemini gemini_prompt
       in [GeminiRequest gemini_prompt, Markdown ai_tips]
     else
       [Info ''No specific categories identified for tips as your footprint is very low or zero. Keep up the great work!''])"

text \<open>
  The section runs only under the guard of line 164,
  \<^verbatim>\<open>if st.session_state.current_footprint:\<close> (the metrics and the chart of lines
  165--188 are display only and left out).
\<close>

definition tips_section ::
  "(real \<Rightarrow> string) \<Rightarrow> (string \<Rightarrow> string) \<Rightarrow> session_state \<Rightarrow> ui_call list" where
  "tips_section fmt2 gemini s =
    (case current_footprint s of
       None \<Rightarrow> []
     | Some cur \<Rightarrow> personalized_tips fmt2 gemini cur)"

section \<open>The choices offered by the input form (lines 134--135, 142--143)\<close>

text \<open>
  The two \<^verbatim>\<open>st.selectbox\<close> widgets offer these labels and no others; the three
  \<^verbatim>\<open>st.number_input\<close> widgets have \<^verbatim>\<open>min_value=0\<close>.  The function
  \<^verbatim>\<open>calculate_footprint\<close> itself takes any label and any number.
\<close>

definition transport_options :: "string list" where
  "transport_options = [''Gasoline Car'', ''Electric Car'', ''Public Transport'', ''Flight'']"

definition diet_options :: "string list" where
  "diet_options =
     [''High Meat (Daily)'', ''Medium Meat (Few times/week)'', ''Low Meat (Once/week)'',
      ''Vegetarian'', ''Vegan'']"

section \<open>Facts about the factor table\<close>

lemma factor_transportation:
  "factor ''transportation'' ''gasoline_car_km'' = Inr 0.21"
  "factor ''transportation'' ''electric_car_km'' = Inr 0.05"
  "factor ''transportation'' ''public_transport_km'' = Inr 0.04"
  "factor ''transportation'' ''flight_km'' = Inr 0.15"
  by (simp_all add: factor_def then_do_def getitem_def EMISSION_FACTORS_def)

lemma factor_electricity: "factor ''electricity'' ''kwh'' = Inr 0.23"
  by (simp add: factor_def then_do_def getitem_def EMISSION_FACTORS_def)

lemma factor_diet:
  "factor ''diet'' ''high_meat'' = Inr 2.5"
  "factor ''diet'' ''medium_meat'' = Inr 1.5"
  "factor ''diet'' ''low_meat'' = Inr 0.8"
  "factor ''diet'' ''vegetarian'' = Inr 0.5"
  "factor ''diet'' ''vegan'' = Inr 0.3"
  by (simp_all add: factor_def then_do_def getitem_def EMISSION_FACTORS_def)

lemma factor_waste: "factor ''waste'' ''kg_waste'' = Inr 0.2"
  by (simp add: factor_def then_do_def getitem_def EMISSION_FACTORS_def)

lemmas factor_simps = factor_transportation factor_electricity factor_diet factor_waste

section \<open>What the calculator returns\<close>

text \<open>
  Every subscript of the table is on a key that is present, so no run raises
  \<^verbatim>\<open>KeyError\<close>: the calculator returns for every input, and its result has this
  closed form.
\<close>

lemma calculate_footprint_closed:
  "calculate_footprint km tt kwh dc wk =
     (let t = (if tt = ''Gasoline Car'' then km * 0.21
               else if tt = ''Electric Car'' then km * 0.05
               else if tt = ''Public Transport'' then km * 0.04
               else if tt = ''Flight'' then km * 0.15
               else 0);
          e = kwh * 0.23;
          d = (if dc = ''High Meat (Daily)'' then 2.5 * 30
               else if dc = ''Medium Meat (Few times/week)'' then 1.5 * 30
               else if dc = ''Low Meat (Once/week)'' then 0.8 * 30
               else if dc = ''Vegetarian'' then 0.5 * 30
               else if dc = ''Vegan'' then 0.3 * 30
               else 0);
          w = wk * 0.2
      in Inr (0 + t + e + d + w,
              [(''Transportation'', t), (''Electricity'', e), (''Diet'', d), (''Waste'', w)]))"
  unfolding calculate_footprint_def Let_def
  by (simp add: factor_simps then_do_def)

lemma calculate_footprint_returns:
  "\<exists>total t e d w.
     calculate_footprint km tt kwh dc wk =
       Inr (total, [(''Transportation'', t), (''Electricity'', e), (''Diet'', d), (''Waste'', w)]) \<and>
     t = (if tt = ''Gasoline Car'' then km * 0.21
          else if tt = ''Electric Car'' then km * 0.05
          else if tt = ''Public Transport'' then km * 0.04
          else if tt = ''Flight'' then km * 0.15
          else 0) \<and>
     e = kwh * 0.23 \<and>
     d = (if dc = ''High Meat (Daily)'' then 2.5 * 30
          else if dc = ''Medium Meat (Few times/week)'' then 1.5 * 30
          else if dc = ''Low Meat (Once/week)'' then 0.8 * 30
          else if dc = ''Vegetarian'' then 0.5 * 30
          else if dc = ''Vegan'' then 0.3 * 30
          else 0) \<and>
     w = wk * 0.2 \<and>
     total = 0 + t + e + d + w"
  unfolding calculate_footprint_closed Let_def by blast

lemma calculate_button_appends:
  "calculate_footprint km tt kwh dc wk = Inr (tot, bd) \<Longrightarrow>
   calculate_button today km tt kwh dc wk s =
     Inr (history_append \<lparr>date_fp = today, total_fp = tot, breakdown_fp = bd\<rparr>
            (s\<lparr>current_footprint :=
                 Some \<lparr>date_fp = today, total_fp = tot, breakdown_fp = bd\<rparr>\<rparr>))"
  by (simp add: calculate_button_def then_do_def Let_def)

section \<open>Arguments that are \<^verbatim>\<open>int\<close> or \<^verbatim>\<open>float\<close>\<close>

text \<open>
  On arguments that convert, the calculator on \<^verbatim>\<open>int\<close> and \<^verbatim>\<open>float\<close> arguments
  is the calculator on their values.
\<close>

lemma calculate_footprint_py_agrees:
  assumes "py_float km = Inr a" and "py_float kwh = Inr b" and "py_float wk = Inr c"
  shows "calculate_footprint_py km tt kwh dc wk = calculate_footprint a tt b dc c"
  unfolding calculate_footprint_py_def calculate_footprint_def Let_def
  by (simp add: mul_float_def then_do_def factor_simps assms)

text \<open>
  In general it converts the distance (when the transport label selects a branch), then
  the electricity, then the waste, and the first conversion that fails ends the run with
  \<^verbatim>\<open>OverflowError\<close>.
\<close>

lemma calculate_footprint_py_conversions:
  "calculate_footprint_py km tt kwh dc wk =
     then_do (if tt \<in> set transport_options then py_float km else Inr 0) (\<lambda>a.
     then_do (py_float kwh) (\<lambda>b.
     then_do (py_float wk) (\<lambda>c.
     calculate_footprint a tt b dc c)))"
  unfolding calculate_footprint_py_def calculate_footprint_def Let_def
  by (cases "py_float km"; cases "py_float kwh"; cases "py_float wk")
     (simp_all add: mul_float_def then_do_def factor_simps transport_options_def)

text \<open>An \<^verbatim>\<open>int\<close> beyond the range of \<^verbatim>\<open>float\<close>, as in \<^verbatim>\<open>calculate_footprint(-10**400, "Gasoline Car", 0, "Vegan", 0.0)\<close>.\<close>

lemma py_float_huge: "py_float (PyInt (- (10 ^ 400))) = Inl OverflowError"
  by simp

lemma huge_int_overflow:
  "calculate_footprint_py (PyInt (- (10 ^ 400))) ''Gasoline Car'' (PyInt 0) ''Vegan'' (PyFloat 0) =
     Inl OverflowError"
  by (simp only: calculate_footprint_py_conversions py_float_huge)
     (simp add: then_do_def transport_options_def)

section \<open>The end-to-end scenario\<close>

text \<open>
  Claim C1.  For 500 km by gasoline car, 300 kWh, a vegetarian diet and 15 kg of waste,
  \<^verbatim>\<open>calculate_footprint\<close> returns the total 192 and the breakdown
  Transportation 105, Electricity 69, Diet 15, Waste 3.
\<close>

theorem scenario_gasoline_vegetarian:
  "calculate_footprint 500 ''Gasoline Car'' 300 ''Vegetarian'' 15 =
     Inr (192, [(''Transportation'', 105), (''Electricity'', 69), (''Diet'', 15), (''Waste'', 3)])"
  by (simp add: calculate_footprint_def factor_simps then_do_def)

section \<open>Total and breakdown\<close>

text \<open>
  Claim C2.  The total that \<^verbatim>\<open>calculate_footprint\<close> returns is the sum of the values
  of the breakdown it returns, added from left to right in the order of the keys as
  Python's \<^verbatim>\<open>sum(breakdown.values())\<close> does.  This holds for every input, so in
  particular for every input whose numeric fields are non-negative.
\<close>

theorem total_is_sum_of_breakdown:
  "\<exists>total breakdown.
     calculate_footprint km tt kwh dc wk = Inr (total, breakdown) \<and>
     total = foldl (+) 0 (map snd breakdown)"
  by (simp add: calculate_footprint_closed Let_def)

text \<open>
  Claim C8.  For every input the breakdown has exactly the four keys Transportation,
  Electricity, Diet, Waste, in this order, whatever the contributions are (zero
  included).
\<close>

theorem breakdown_keys_fixed_order:
  "\<exists>total breakdown.
     calculate_footprint km tt kwh dc wk = Inr (total, breakdown) \<and>
     map fst breakdown = [''Transportation'', ''Electricity'', ''Diet'', ''Waste'']"
  by (simp add: calculate_footprint_closed Let_def)

text \<open>
  Claim C6.  Raising one numeric input alone (distance, electricity or waste) never lowers
  the contribution of its own category and leaves the other three contributions as they
  were.  The three cases are stated together against the same base input.
\<close>

theorem single_input_monotone:
  assumes "km \<le> km'" and "kwh \<le> kwh'" and "wk \<le> wk'"
  shows "\<exists>total t e d w total1 t' total2 e' total3 w'.
     calculate_footprint km tt kwh dc wk =
       Inr (total, [(''Transportation'', t), (''Electricity'', e), (''Diet'', d), (''Waste'', w)]) \<and>
     calculate_footprint km' tt kwh dc wk =
       Inr (total1, [(''Transportation'', t'), (''Electricity'', e), (''Diet'', d), (''Waste'', w)]) \<and>
     t \<le> t' \<and>
     calculate_footprint km tt kwh' dc wk =
       Inr (total2, [(''Transportation'', t), (''Electricity'', e'), (''Diet'', d), (''Waste'', w)]) \<and>
     e \<le> e' \<and>
     calculate_footprint km tt kwh dc wk' =
       Inr (total3, [(''Transportation'', t), (''Electricity'', e), (''Diet'', d), (''Waste'', w')]) \<and>
     w \<le> w'"
proof -
  let ?T = "\<lambda>x::real. if tt = ''Gasoline Car'' then x * 0.21
               else if tt = ''Electric Car'' then x * 0.05
               else if tt = ''Public Transport'' then x * 0.04
               else if tt = ''Flight'' then x * 0.15
               else 0"
  let ?D = "if dc = ''High Meat (Daily)'' then 2.5 * 30
               else if dc = ''Medium Meat (Few times/week)'' then 1.5 * 30
               else if dc = ''Low Meat (Once/week)'' then 0.8 * 30
               else if dc = ''Vegetarian'' then 0.5 * 30
               else if dc = ''Vegan'' then 0.3 * 30
               else (0::real)"
  have cf: "calculate_footprint a tt b dc c =
      Inr (0 + ?T a + b * 0.23 + ?D + c * 0.2,
           [(''Transportation'', ?T a), (''Electricity'', b * 0.23), (''Diet'', ?D),
            (''Waste'', c * 0.2)])" for a b c
    unfolding calculate_footprint_closed Let_def by (rule refl)
  have t: "?T km \<le> ?T km'" using assms(1) by simp
  have e: "kwh * 0.23 \<le> kwh' * 0.23" using assms(2) by simp
  have w: "wk * 0.2 \<le> wk' * 0.2" using assms(3) by simp
  from t e w show ?thesis unfolding cf by blast
qed

theorem single_input_monotone_witness:
  "(100::real) \<le> 200 \<and> (10::real) \<le> 20 \<and> (5::real) \<le> 10 \<and>
   calculate_footprint 100 ''Flight'' 10 ''Vegan'' 5 =
       Inr (27.3, [(''Transportation'', 15), (''Electricity'', 2.3), (''Diet'', 9), (''Waste'', 1)]) \<and>
   calculate_footprint 200 ''Flight'' 10 ''Vegan'' 5 =
       Inr (42.3, [(''Transportation'', 30), (''Electricity'', 2.3), (''Diet'', 9), (''Waste'', 1)]) \<and>
   calculate_footprint 100 ''Flight'' 20 ''Vegan'' 5 =
       Inr (29.6, [(''Transportation'', 15), (''Electricity'', 4.6), (''Diet'', 9), (''Waste'', 1)]) \<and>
   calculate_footprint 100 ''Flight'' 10 ''Vegan'' 10 =
       Inr (28.3, [(''Transportation'', 15), (''Electricity'', 2.3), (''Diet'', 9), (''Waste'', 2)]) \<and>
   (15::real) \<le> 30 \<and> (2.3::real) \<le> 4.6 \<and> (1::real) \<le> 2"
  using single_input_monotone [of 100 200 10 20 5 10 "''Flight''" "''Vegan''"]
  by (simp add: calculate_footprint_closed Let_def)

section \<open>The diet contribution and the all-zero input\<close>

text \<open>
  Claim C10.  For each of the five diet labels of the form, the Diet contribution is the
  label's daily coefficient times 30, so it is at least 9 (vegan, 0.3 times 30).  The
  total is then at least 9 for non-negative numeric inputs, and it equals the Diet
  contribution, hence is positive, when the three numeric inputs are zero.
\<close>

theorem recognized_diet_contribution:
  assumes "dc \<in> set diet_options"
  shows "\<exists>total t e d w total0.
     calculate_footprint km tt kwh dc wk =
       Inr (total, [(''Transportation'', t), (''Electricity'', e), (''Diet'', d), (''Waste'', w)]) \<and>
     d = (if dc = ''High Meat (Daily)'' then 2.5 * 30
          else if dc = ''Medium Meat (Few times/week)'' then 1.5 * 30
          else if dc = ''Low Meat (Once/week)'' then 0.8 * 30
          else if dc = ''Vegetarian'' then 0.5 * 30
          else 0.3 * 30) \<and>
     9 \<le> d \<and>
     (0 \<le> km \<and> 0 \<le> kwh \<and> 0 \<le> wk \<longrightarrow> 9 \<le> total) \<and>
     calculate_footprint 0 tt 0 dc 0 =
       Inr (total0, [(''Transportation'', 0), (''Electricity'', 0), (''Diet'', d), (''Waste'', 0)]) \<and>
     0 < total0"
proof -
  let ?D = "if dc = ''High Meat (Daily)'' then 2.5 * 30
          else if dc = ''Medium Meat (Few times/week)'' then 1.5 * 30
          else if dc = ''Low Meat (Once/week)'' then 0.8 * 30
          else if dc = ''Vegetarian'' then 0.5 * 30
          else if dc = ''Vegan'' then 0.3 * 30
          else (0::real)"
  from calculate_footprint_returns [of km tt kwh dc wk] obtain tot t e d w where
    cf: "calculate_footprint km tt kwh dc wk =
           Inr (tot, [(''Transportation'', t), (''Electricity'', e), (''Diet'', d), (''Waste'', w)])"
    and t: "t = (if tt = ''Gasoline Car'' then km * 0.21
          else if tt = ''Electric Car'' then km * 0.05
          else if tt = ''Public Transport'' then km * 0.04
          else if tt = ''Flight'' then km * 0.15
          else 0)"
    and e: "e = kwh * 0.23"
    and d: "d = ?D"
    and w: "w = wk * 0.2"
    and tot: "tot = 0 + t + e + d + w"
    by blast
  have d1: "d = (if dc = ''High Meat (Daily)'' then 2.5 * 30
          else if dc = ''Medium Meat (Few times/week)'' then 1.5 * 30
          else if dc = ''Low Meat (Once/week)'' then 0.8 * 30
          else if dc = ''Vegetarian'' then 0.5 * 30
          else 0.3 * 30)"
    using d assms by (auto simp: diet_options_def)
  have d9: "9 \<le> d" using d1 by (simp split: if_splits)
  have nonneg: "0 \<le> km \<and> 0 \<le> kwh \<and> 0 \<le> wk \<longrightarrow> 9 \<le> tot"
  proof
    assume h: "0 \<le> km \<and> 0 \<le> kwh \<and> 0 \<le> wk"
    then have "0 \<le> t" using t by simp
    moreover have "0 \<le> e" using h e by simp
    moreover have "0 \<le> w" using h w by simp
    ultimately show "9 \<le> tot" using d9 tot by simp
  qed
  have z: "calculate_footprint 0 tt 0 dc 0 =
       Inr (d, [(''Transportation'', 0), (''Electricity'', 0), (''Diet'', d), (''Waste'', 0)])"
    unfolding d by (simp add: calculate_footprint_closed Let_def)
  have "0 < d" using d9 by simp
  with cf d1 d9 nonneg z show ?thesis by blast
qed

theorem recognized_diet_contribution_witness:
  "''Vegan'' \<in> set diet_options \<and>
   calculate_footprint 0 ''Flight'' 0 ''Vegan'' 0 =
     Inr (9, [(''Transportation'', 0), (''Electricity'', 0), (''Diet'', 9), (''Waste'', 0)]) \<and>
   (9::real) = 0.3 * 30"
  using recognized_diet_contribution [of "''Vegan''" 0 "''Flight''" 0 0]
  by (simp add: calculate_footprint_closed Let_def diet_options_def)

text \<open>
  Claim C5 says that an all-zero input gives the total 0 and four contributions 0.  The
  diet is a label, not a number, and every label of the form has a positive monthly
  contribution: with the three numeric inputs zero and the vegan diet the calculator
  returns the total 9 and the Diet contribution 9.
\<close>

theorem all_zero_vegan_counterexample:
  "calculate_footprint 0 ''Gasoline Car'' 0 ''Vegan'' 0 =
     Inr (9, [(''Transportation'', 0), (''Electricity'', 0), (''Diet'', 9), (''Waste'', 0)])"
  by (simp add: calculate_footprint_def factor_simps then_do_def)

text \<open>
  Claim C5 as amended.  When the three numeric inputs are zero, the Transportation,
  Electricity and Waste contributions are 0 and the total equals the Diet contribution:
  75, 45, 24, 15 or 9 for the five diet labels of the form, and 0 for any other label.
\<close>

theorem zero_numeric_inputs_total_is_diet:
  "\<exists>d. calculate_footprint 0 tt 0 dc 0 =
         Inr (d, [(''Transportation'', 0), (''Electricity'', 0), (''Diet'', d), (''Waste'', 0)]) \<and>
       d = (if dc = ''High Meat (Daily)'' then 75
            else if dc = ''Medium Meat (Few times/week)'' then 45
            else if dc = ''Low Meat (Once/week)'' then 24
            else if dc = ''Vegetarian'' then 15
            else if dc = ''Vegan'' then 9
            else 0)"
  by (simp add: calculate_footprint_closed Let_def)

section \<open>Inputs outside the form's range\<close>




text \<open>
  Claim C4 says that a transport or diet label outside the form's choices makes the
  calculation fail with an UnknownVariant error.  Each \<^verbatim>\<open>if\<close>/\<^verbatim>\<open>elif\<close> chain has
  no \<^verbatim>\<open>else\<close>, so the contribution keeps its initial value 0: with the labels Bicycle
  and Keto the calculator returns, with the total 72.
\<close>

theorem unknown_variant_counterexample:
  "calculate_footprint 500 ''Bicycle'' 300 ''Keto'' 15 =
     Inr (72, [(''Transportation'', 0), (''Electricity'', 69), (''Diet'', 0), (''Waste'', 3)])"
  by (simp add: calculate_footprint_def factor_simps then_do_def)

text \<open>
  Claim C4 as amended.  Take an input whose transport label or diet label is not one of
  the form's choices and whose numeric fields are \<^verbatim>\<open>float\<close>s, or \<^verbatim>\<open>int\<close>s that
  convert to \<^verbatim>\<open>float\<close>.  The calculator raises no error.  It returns the four
  contributions and their sum: Transportation is 0 for a transport label outside the
  form's choices and the distance times the label's coefficient otherwise, Diet is 0 for
  a diet label outside the form's choices and the label's coefficient times 30 otherwise,
  Electricity is the kWh times 0.23, Waste is the kg times 0.2.  So the Transportation
  contribution or the Diet contribution is 0.
\<close>

theorem unknown_variant_zero_contribution:
  assumes "py_float km = Inr a" and "py_float kwh = Inr b" and "py_float wk = Inr c"
    and "tt \<notin> set transport_options \<or> dc \<notin> set diet_options"
  shows "\<exists>total t e d w.
     calculate_footprint_py km tt kwh dc wk =
       Inr (total, [(''Transportation'', t), (''Electricity'', e), (''Diet'', d), (''Waste'', w)]) \<and>
     t = (if tt = ''Gasoline Car'' then a * 0.21
          else if tt = ''Electric Car'' then a * 0.05
          else if tt = ''Public Transport'' then a * 0.04
          else if tt = ''Flight'' then a * 0.15
          else 0) \<and>
     e = b * 0.23 \<and>
     d = (if dc = ''High Meat (Daily)'' then 2.5 * 30
          else if dc = ''Medium Meat (Few times/week)'' then 1.5 * 30
          else if dc = ''Low Meat (Once/week)'' then 0.8 * 30
          else if dc = ''Vegetarian'' then 0.5 * 30
          else if dc = ''Vegan'' then 0.3 * 30
          else 0) \<and>
     w = c * 0.2 \<and>
     total = 0 + t + e + d + w \<and>
     (tt \<notin> set transport_options \<longrightarrow> t = 0) \<and>
     (dc \<notin> set diet_options \<longrightarrow> d = 0) \<and>
     (t = 0 \<or> d = 0)"
proof -
  from calculate_footprint_returns [of a tt b dc c] obtain tot t e d w where
    cf: "calculate_footprint a tt b dc c =
           Inr (tot, [(''Transportation'', t), (''Electricity'', e), (''Diet'', d), (''Waste'', w)])"
    and t: "t = (if tt = ''Gasoline Car'' then a * 0.21
          else if tt = ''Electric Car'' then a * 0.05
          else if tt = ''Public Transport'' then a * 0.04
          else if tt = ''Flight'' then a * 0.15
          else 0)"
    and e: "e = b * 0.23"
    and d: "d = (if dc = ''High Meat (Daily)'' then 2.5 * 30
          else if dc = ''Medium Meat (Few times/week)'' then 1.5 * 30
          else if dc = ''Low Meat (Once/week)'' then 0.8 * 30
          else if dc = ''Vegetarian'' then 0.5 * 30
          else if dc = ''Vegan'' then 0.3 * 30
          else 0)"
    and w: "w = c * 0.2"
    and tot: "tot = 0 + t + e + d + w"
    by blast
  have py: "calculate_footprint_py km tt kwh dc wk =
           Inr (tot, [(''Transportation'', t), (''Electricity'', e), (''Diet'', d), (''Waste'', w)])"
    using calculate_footprint_py_agrees [OF assms(1-3)] cf by simp
  have t0: "tt \<notin> set transport_options \<longrightarrow> t = 0"
    using t by (simp add: transport_options_def)
  have d0: "dc \<notin> set diet_options \<longrightarrow> d = 0"
    using d by (simp add: diet_options_def)
  have some: "t = 0 \<or> d = 0" using assms(4) t0 d0 by blast
  from py t e d w tot t0 d0 some show ?thesis by blast
qed

theorem unknown_variant_zero_contribution_witness:
  "py_float (PyInt 100) = Inr 100 \<and> py_float (PyInt 200) = Inr 200 \<and>
   py_float (PyFloat 10) = Inr 10 \<and>
   ''Tram'' \<notin> set transport_options \<and> ''Paleo'' \<notin> set diet_options \<and>
   calculate_footprint_py (PyInt 100) ''Tram'' (PyInt 200) ''Paleo'' (PyFloat 10) =
     Inr (48, [(''Transportation'', 0), (''Electricity'', 46), (''Diet'', 0), (''Waste'', 2)])"
  using unknown_variant_zero_contribution
          [of "PyInt 100" 100 "PyInt 200" 200 "PyFloat 10" 10 "''Tram''" "''Paleo''"]
        calculate_footprint_py_agrees
          [of "PyInt 100" 100 "PyInt 200" 200 "PyFloat 10" 10 "''Tram''" "''Paleo''"]
  by (simp add: calculate_footprint_closed Let_def transport_options_def diet_options_def)

section \<open>The history\<close>

text \<open>
  Claim C7.  For every session state and every record, after the append of line 160 the
  history read back ends with the appended record, is one longer than before, and its
  earlier entries are the old history.  The button's code returns for every input and
  appends in this way the record it has just made the current footprint.
\<close>

theorem history_append_last_and_length:
  "last (footprint_history (history_append r s)) = r \<and>
   length (footprint_history (history_append r s)) = length (footprint_history s) + 1 \<and>
   butlast (footprint_history (history_append r s)) = footprint_history s \<and>
   (\<exists>s' r'. calculate_button today km tt kwh dc wk s = Inr s' \<and>
      current_footprint s' = Some r' \<and>
      footprint_history s' = footprint_history (history_append r' s))"
proof -
  from calculate_footprint_returns [of km tt kwh dc wk] obtain tot bd where
    cf: "calculate_footprint km tt kwh dc wk = Inr (tot, bd)"
    by blast
  have "\<exists>s' r'. calculate_button today km tt kwh dc wk s = Inr s' \<and>
      current_footprint s' = Some r' \<and>
      footprint_history s' = footprint_history (history_append r' s)"
    unfolding calculate_button_appends [OF cf] by (simp add: history_append_def)
  then show ?thesis by (simp add: history_append_def)
qed

text \<open>The reset of lines 247--248 empties the history, whatever it held.\<close>

lemma reset_data_empty:
  "footprint_history (reset_data s) = [] \<and> current_footprint (reset_data s) = None"
  by (simp add: reset_data_def)

section \<open>The request for tips\<close>

lemma no_nonzero_all_zero:
  "[cat. (cat, co2) \<leftarrow> xs, co2 \<noteq> (0::real)] = [] \<Longrightarrow> \<forall>item \<in> set xs. snd item = 0"
  by (induction xs) (auto split: if_splits)

lemma all_zero_no_positive:
  "\<forall>item \<in> set xs. snd item = (0::real) \<Longrightarrow> [cat. (cat, co2) \<leftarrow> xs, co2 > 0] = []"
  by (induction xs) auto

lemma top_categories_empty:
  assumes "[cat. (cat, co2) \<leftarrow> xs, co2 \<noteq> (0::real)] = []"
  shows "[cat. (cat, co2) \<leftarrow> sorted_by_value_desc xs, co2 > 0] = []"
proof -
  have "\<forall>item \<in> set (sorted_by_value_desc xs). snd item = 0"
    using no_nonzero_all_zero [OF assms] by (simp add: sorted_by_value_desc_def)
  then show ?thesis by (rule all_zero_no_positive)
qed

text \<open>
  Claim C9.  When the current footprint has no category with a nonzero contribution, the
  tips section sends no request to the text service: all it does is show the notice that
  no category was identified for tips.
\<close>

theorem no_request_without_nonzero_category:
  assumes "current_footprint s = Some cur"
    and "[cat. (cat, co2) \<leftarrow> breakdown_fp cur, co2 \<noteq> 0] = []"
  shows "tips_section fmt2 gemini s =
           [Info ''No specific categories identified for tips as your footprint is very low or zero. Keep up the great work!''] \<and>
         (\<forall>prompt. GeminiRequest prompt \<notin> set (tips_section fmt2 gemini s))"
proof -
  have tc: "[cat. (cat, co2) \<leftarrow> sorted_by_value_desc (breakdown_fp cur), co2 > 0] = []"
    by (rule top_categories_empty [OF assms(2)])
  have "personalized_tips fmt2 gemini cur =
           [Info ''No specific categories identified for tips as your footprint is very low or zero. Keep up the great work!'']"
    unfolding personalized_tips_def Let_def tc by simp
  then have "tips_section fmt2 gemini s =
           [Info ''No specific categories identified for tips as your footprint is very low or zero. Keep up the great work!'']"
    using assms(1) by (simp add: tips_section_def)
  then show ?thesis by simp
qed

theorem no_request_without_nonzero_category_witness:
  "calculate_button ''2026-11-04'' 0 ''Flight'' 0 ''Keto'' 0 new_session =
     Inr \<lparr>footprint_history =
            [\<lparr>date_fp = ''2026-11-04'', total_fp = 0,
              breakdown_fp = [(''Transportation'', 0), (''Electricity'', 0), (''Diet'', 0),
                              (''Waste'', 0)]\<rparr>],
          current_footprint =
            Some \<lparr>date_fp = ''2026-11-04'', total_fp = 0,
                  breakdown_fp = [(''Transportation'', 0), (''Electricity'', 0), (''Diet'', 0),
                                  (''Waste'', 0)]\<rparr>\<rparr> \<and>
   tips_section (\<lambda>x. ''0.00'') (\<lambda>p. ''tips'')
     \<lparr>footprint_history =
            [\<lparr>date_fp = ''2026-11-04'', total_fp = 0,
              breakdown_fp = [(''Transportation'', 0), (''Electricity'', 0), (''Diet'', 0),
                              (''Waste'', 0)]\<rparr>],
          current_footprint =
            Some \<lparr>date_fp = ''2026-11-04'', total_fp = 0,
                  breakdown_fp = [(''Transportation'', 0), (''Electricity'', 0), (''Diet'', 0),
                                  (''Waste'', 0)]\<rparr>\<rparr> =
     [Info ''No specific categories identified for tips as your footprint is very low or zero. Keep up the great work!'']"
  using no_request_without_nonzero_category
          [of "\<lparr>footprint_history =
            [\<lparr>date_fp = ''2026-11-04'', total_fp = 0,
              breakdown_fp = [(''Transportation'', 0), (''Electricity'', 0), (''Diet'', 0),
                              (''Waste'', 0)]\<rparr>],
          current_footprint =
            Some \<lparr>date_fp = ''2026-11-04'', total_fp = 0,
                  breakdown_fp = [(''Transportation'', 0), (''Electricity'', 0), (''Diet'', 0),
                                  (''Waste'', 0)]\<rparr>\<rparr>"
              "\<lparr>date_fp = ''2026-11-04'', total_fp = 0,
                  breakdown_fp = [(''Transportation'', 0), (''Electricity'', 0), (''Diet'', 0),
                                  (''Waste'', 0)]\<rparr>" "\<lambda>x. ''0.00''" "\<lambda>p. ''tips''"]
  by (simp add: calculate_button_def history_append_def calculate_footprint_closed then_do_def
      Let_def new_session_def)

end
